theory Spec2Isabelle
  imports Main
begin

section \<open>DigitalIO for ESP32 over SPI: a model of \<^verbatim>\<open>adafruit_esp32spi/digitalio.py\<close>\<close>

text \<open>
  The module has two classes, \<^verbatim>\<open>Pin\<close> and \<^verbatim>\<open>DigitalInOut\<close>, which forward
  requests to a driver object \<^verbatim>\<open>esp\<close>. Python objects are mutated in place and an
  exception leaves every assignment made before it in force, so each call is a function
  from the state before the call to a result together with the state after the call, also
  when the result is an exception.
\<close>

subsection \<open>Python values and exceptions\<close>

text \<open>
  The exceptions. The first three are raised by \<^verbatim>\<open>raise\<close> statements of the module
  and carry their message. \<open>NoAttribute t a\<close> is the \<^verbatim>\<open>AttributeError\<close> that the
  interpreter raises when an object of type \<open>t\<close> has no attribute \<open>a\<close>, and
  \<open>TypeError\<close> the one it raises for a call with the wrong number of arguments.
  \<open>Raised x\<close> is an exception named \<open>x\<close> that comes from outside the module: from
  the truth test or the comparison of an argument, or from the driver.
\<close>

datatype error =
    AttributeError string
  | RuntimeError string
  | NotImplementedError string
  | NoAttribute string string
  | TypeError string
  | Raised string

text \<open>
  The arguments of the methods are untyped. \<open>Direction_INPUT\<close>, \<open>Direction_OUTPUT\<close>,
  \<open>DriveMode_PUSH_PULL\<close> and \<open>DriveMode_OPEN_DRAIN\<close> are the four instances made at
  class level (lines 99, 100, 106, 107), which the code compares with \<^verbatim>\<open>is\<close>.
  \<open>PyObject c k t q r\<close> is any other object, the instance \<open>k\<close> of a type named
  \<open>c\<close>, given by the three things the module can observe of it: \<open>t\<close> is the outcome
  of its truth test, \<open>q n\<close> the outcome of the test \<^verbatim>\<open>v == n\<close> for an integer
  \<open>n\<close>, and \<open>r\<close> the outcome of the test \<^verbatim>\<open>v != None\<close>; each is a truth value or
  the name of the exception that the test raises. The float \<^verbatim>\<open>1.0\<close> is
  \<open>PyObject ''float'' k (Inr True) (\<lambda>n. Inr (n = 1)) (Inr True)\<close>, the float
  \<^verbatim>\<open>0.0\<close> is \<open>PyObject ''float'' k (Inr False) (\<lambda>n. Inr (n = 0)) (Inr True)\<close>, an
  empty set is \<open>PyObject ''set'' k (Inr False) (\<lambda>n. Inr False) (Inr True)\<close>, and an
  instance of a class that defines none of \<^verbatim>\<open>__bool__\<close>, \<^verbatim>\<open>__len__\<close>, \<^verbatim>\<open>__eq__\<close>
  and \<^verbatim>\<open>__ne__\<close> is \<open>PyObject c k (Inr True) (\<lambda>n. Inr False) (Inr True)\<close>.
\<close>

datatype pyval =
    PyNone
  | PyBool bool
  | PyInt int
  | PyStr string
  | PyList "pyval list"
  | PyTuple "pyval list"
  | PyDict "(pyval \<times> pyval) list"
  | Direction_INPUT
  | Direction_OUTPUT
  | DriveMode_PUSH_PULL
  | DriveMode_OPEN_DRAIN
  | PyObject string nat "string + bool" "int \<Rightarrow> string + bool" "string + bool"

type_synonym result = "error + pyval"

text \<open>An object that is true, equals no integer and differs from \<^verbatim>\<open>None\<close>.\<close>

definition plain :: "string \<Rightarrow> nat \<Rightarrow> pyval" where
  "plain c k = PyObject c k (Inr True) (\<lambda>n. Inr False) (Inr True)"

text \<open>The outcome of a test of an object: its truth value, or the exception raised.\<close>

definition observed :: "string + bool \<Rightarrow> error + bool" where
  "observed t = (case t of Inl x \<Rightarrow> Inl (Raised x) | Inr b \<Rightarrow> Inr b)"

text \<open>
  The truth test of a Python value, as \<^verbatim>\<open>1 if val else 0\<close> makes it: \<^verbatim>\<open>None\<close>,
  \<^verbatim>\<open>False\<close>, zero and the empty string, list, tuple and dict are false; the classes
  \<^verbatim>\<open>Direction\<close> and \<^verbatim>\<open>DriveMode\<close> define no truth test, so that their instances are
  true.
\<close>

fun truthy :: "pyval \<Rightarrow> error + bool" where
  "truthy PyNone = Inr False"
| "truthy (PyBool b) = Inr b"
| "truthy (PyInt i) = Inr (i \<noteq> 0)"
| "truthy (PyStr s) = Inr (s \<noteq> [])"
| "truthy (PyList xs) = Inr (xs \<noteq> [])"
| "truthy (PyTuple xs) = Inr (xs \<noteq> [])"
| "truthy (PyDict kvs) = Inr (kvs \<noteq> [])"
| "truthy Direction_INPUT = Inr True"
| "truthy Direction_OUTPUT = Inr True"
| "truthy DriveMode_PUSH_PULL = Inr True"
| "truthy DriveMode_OPEN_DRAIN = Inr True"
| "truthy (PyObject c k t q r) = observed t"

text \<open>
  The test \<^verbatim>\<open>v == n\<close> for an integer constant \<open>n\<close>: a bool compares as 0 or 1;
  \<^verbatim>\<open>None\<close>, a string, a list, a tuple, a dict and the four instances equal no integer.
\<close>

fun py_eq_int :: "pyval \<Rightarrow> int \<Rightarrow> error + bool" where
  "py_eq_int (PyInt i) n = Inr (i = n)"
| "py_eq_int (PyBool b) n = Inr ((if b then 1 else 0) = n)"
| "py_eq_int PyNone n = Inr False"
| "py_eq_int (PyStr s) n = Inr False"
| "py_eq_int (PyList xs) n = Inr False"
| "py_eq_int (PyTuple xs) n = Inr False"
| "py_eq_int (PyDict kvs) n = Inr False"
| "py_eq_int Direction_INPUT n = Inr False"
| "py_eq_int Direction_OUTPUT n = Inr False"
| "py_eq_int DriveMode_PUSH_PULL n = Inr False"
| "py_eq_int DriveMode_OPEN_DRAIN n = Inr False"
| "py_eq_int (PyObject c k t q r) n = observed (q n)"

text \<open>The test \<^verbatim>\<open>v != None\<close>.\<close>

fun py_ne_None :: "pyval \<Rightarrow> error + bool" where
  "py_ne_None PyNone = Inr False"
| "py_ne_None (PyObject c k t q r) = observed r"
| "py_ne_None v = Inr True"

text \<open>Decimal rendering of an integer, as \<^verbatim>\<open>"%d" % n\<close> gives it.\<close>

fun str_nat :: "nat \<Rightarrow> string" where
  "str_nat n =
     (if n < 10 then [''0123456789'' ! n]
      else str_nat (n div 10) @ [''0123456789'' ! (n mod 10)])"

declare str_nat.simps [simp del]

definition str_int :: "int \<Rightarrow> string" where
  "str_int i = (if i < 0 then ''-'' @ str_nat (nat (- i)) else str_nat (nat i))"

subsection \<open>The driver\<close>

text \<open>
  The driver \<^verbatim>\<open>esp\<close> is outside the module. The module calls two of its methods,
  \<^verbatim>\<open>set_pin_mode(pin, mode)\<close> and \<^verbatim>\<open>set_digital_write(pin, value)\<close>; the driver is
  modelled as the list of the calls it has received, oldest first. In this part the
  driver carries out every call; a driver that raises is treated further down.
\<close>

datatype command =
    set_pin_mode int int
  | set_digital_write int int

subsection \<open>Pin\<close>

definition Pin_IN :: int where "Pin_IN = 0"
definition Pin_OUT :: int where "Pin_OUT = 1"
definition Pin_LOW :: int where "Pin_LOW = 0"
definition Pin_HIGH :: int where "Pin_HIGH = 1"

definition ESP32_GPIO_PINS :: "int set" where
  "ESP32_GPIO_PINS = {0, 1, 2, 4, 5,
                      12, 13, 14, 15,
                      16, 17, 18, 19,
                      21, 22, 23, 25,
                      26, 27, 32, 33}"

text \<open>
  Every name bound in the body of class \<^verbatim>\<open>Pin\<close> (lines 32 to 93), with its value;
  a function or the pin set is an opaque object. \<^verbatim>\<open>Pin.NAME\<close> looks \<open>NAME\<close> up here.
\<close>

definition Pin_class_attrs :: "(string \<times> pyval) list" where
  "Pin_class_attrs =
     [(''IN'', PyInt Pin_IN), (''OUT'', PyInt Pin_OUT),
      (''LOW'', PyInt Pin_LOW), (''HIGH'', PyInt Pin_HIGH),
      (''_value'', PyInt Pin_LOW), (''_mode'', PyInt Pin_IN), (''id'', PyNone),
      (''ESP32_GPIO_PINS'', plain ''set'' 0),
      (''__init__'', plain ''function'' 0), (''init'', plain ''function'' 1),
      (''value'', plain ''function'' 2), (''__repr__'', plain ''function'' 3)]"

definition Pin_getattr :: "string \<Rightarrow> error + pyval" where
  "Pin_getattr name =
     (case map_of Pin_class_attrs name of
        None \<Rightarrow> Inl (NoAttribute ''Pin'' name)
      | Some v \<Rightarrow> Inr v)"

text \<open>
  The fields of a \<^verbatim>\<open>Pin\<close> instance: \<open>pin_id\<close> is \<^verbatim>\<open>id\<close>, \<open>pin_mode\<close> is
  \<^verbatim>\<open>_mode\<close> and \<open>pin_value\<close> is \<^verbatim>\<open>_value\<close>. The reference \<^verbatim>\<open>_esp\<close> is the one
  driver, passed along as the list of calls.
\<close>

record Pin =
  pin_id :: int
  pin_mode :: int
  pin_value :: pyval

text \<open>\<^verbatim>\<open>Pin.__init__(esp_pin, esp)\<close>, lines 55 to 60.\<close>

definition Pin_new :: "int \<Rightarrow> command list \<Rightarrow> (error + Pin) \<times> command list" where
  "Pin_new esp_pin drv =
     (if esp_pin \<in> ESP32_GPIO_PINS
      then (Inr \<lparr>pin_id = esp_pin, pin_mode = Pin_IN, pin_value = PyInt Pin_LOW\<rparr>, drv)
      else (Inl (AttributeError
                   (''Pin '' @ str_int esp_pin @ '' is not a valid ESP32 GPIO Pin.'')), drv))"

text \<open>\<^verbatim>\<open>Pin.init(mode)\<close>, lines 62 to 74.\<close>

definition Pin_init :: "Pin \<Rightarrow> pyval \<Rightarrow> command list \<Rightarrow> result \<times> Pin \<times> command list" where
  "Pin_init p m drv =
     (case py_ne_None m of
        Inl e \<Rightarrow> (Inl e, p, drv)
      | Inr False \<Rightarrow> (Inr PyNone, p, drv)
      | Inr True \<Rightarrow>
          (case py_eq_int m Pin_IN of
             Inl e \<Rightarrow> (Inl e, p, drv)
           | Inr True \<Rightarrow>
               (Inr PyNone, p\<lparr>pin_mode := Pin_IN\<rparr>, drv @ [set_pin_mode (pin_id p) 0])
           | Inr False \<Rightarrow>
               (case py_eq_int m Pin_OUT of
                  Inl e \<Rightarrow> (Inl e, p, drv)
                | Inr True \<Rightarrow>
                    (Inr PyNone, p\<lparr>pin_mode := Pin_OUT\<rparr>,
                     drv @ [set_pin_mode (pin_id p) 1])
                | Inr False \<Rightarrow> (Inl (RuntimeError ''Invalid mode defined''), p, drv))))"

text \<open>\<^verbatim>\<open>Pin.value(val)\<close>, lines 76 to 90.\<close>

definition Pin_value :: "Pin \<Rightarrow> pyval \<Rightarrow> command list \<Rightarrow> result \<times> Pin \<times> command list" where
  "Pin_value p v drv =
     (case py_ne_None v of
        Inl e \<Rightarrow> (Inl e, p, drv)
      | Inr False \<Rightarrow>
          (Inl (NotImplementedError
                  ''digitalRead not currently implemented in esp32spi''), p, drv)
      | Inr True \<Rightarrow>
          (case py_eq_int v Pin_LOW of
             Inl e \<Rightarrow> (Inl e, p, drv)
           | Inr True \<Rightarrow>
               (Inr PyNone, p\<lparr>pin_value := v\<rparr>, drv @ [set_digital_write (pin_id p) 0])
           | Inr False \<Rightarrow>
               (case py_eq_int v Pin_HIGH of
                  Inl e \<Rightarrow> (Inl e, p, drv)
                | Inr True \<Rightarrow>
                    (Inr PyNone, p\<lparr>pin_value := v\<rparr>,
                     drv @ [set_digital_write (pin_id p) 1])
                | Inr False \<Rightarrow> (Inl (RuntimeError ''Invalid value for pin''), p, drv))))"

subsection \<open>DigitalInOut\<close>

text \<open>
  The state of one \<^verbatim>\<open>DigitalInOut\<close> and of the driver it talks to. \<open>pin\<close> is
  \<^verbatim>\<open>_pin\<close> (\<open>None\<close> is Python's \<^verbatim>\<open>None\<close>); \<open>priv_direction\<close> and
  \<open>priv_drive_mode\<close> are the attributes \<^verbatim>\<open>__direction\<close> and \<^verbatim>\<open>__drive_mode\<close> behind
  the two properties, \<open>None\<close> while the attribute does not exist; \<open>attr_drive_mode\<close> is
  the separate attribute \<^verbatim>\<open>_drive_mode\<close> that line 135 assigns; \<open>esp\<close> is the driver.
\<close>

record DigitalInOut =
  pin :: "Pin option"
  priv_direction :: "pyval option"
  priv_drive_mode :: "pyval option"
  attr_drive_mode :: "pyval option"
  esp :: "command list"

type_synonym operation = "DigitalInOut \<Rightarrow> result \<times> DigitalInOut"

text \<open>Two statements in a row: an exception of the first ends the call.\<close>

definition seq :: "result \<times> DigitalInOut \<Rightarrow> operation \<Rightarrow> result \<times> DigitalInOut" where
  "seq r f = (case r of (Inl e, s) \<Rightarrow> (Inl e, s) | (Inr v, s) \<Rightarrow> f s)"

text \<open>\<^verbatim>\<open>self._pin.init(mode=m)\<close> and \<^verbatim>\<open>self._pin.value(v)\<close>.\<close>

definition self_pin_init :: "pyval \<Rightarrow> operation" where
  "self_pin_init m s =
     (case pin s of
        None \<Rightarrow> (Inl (NoAttribute ''NoneType'' ''init''), s)
      | Some p \<Rightarrow>
          (case Pin_init p m (esp s) of
             (r, p', drv) \<Rightarrow> (r, s\<lparr>pin := Some p', esp := drv\<rparr>)))"

definition self_pin_value :: "pyval \<Rightarrow> operation" where
  "self_pin_value v s =
     (case pin s of
        None \<Rightarrow> (Inl (NoAttribute ''NoneType'' ''value''), s)
      | Some p \<Rightarrow>
          (case Pin_value p v (esp s) of
             (r, p', drv) \<Rightarrow> (r, s\<lparr>pin := Some p', esp := drv\<rparr>)))"

text \<open>\<^verbatim>\<open>deinit()\<close>, lines 125 and 126, and \<^verbatim>\<open>__exit__()\<close>, lines 122 and 123.\<close>

definition deinit :: operation where
  "deinit s = (Inr PyNone, s\<lparr>pin := None\<rparr>)"

definition DigitalInOut_exit :: operation where
  "DigitalInOut_exit s = deinit s"

text \<open>The getter of \<^verbatim>\<open>direction\<close>, lines 143 to 146.\<close>

definition direction_get :: operation where
  "direction_get s =
     (case priv_direction s of
        None \<Rightarrow> (Inl (NoAttribute ''DigitalInOut'' ''_DigitalInOut__direction''), s)
      | Some d \<Rightarrow> (Inr d, s))"

text \<open>The getter of \<^verbatim>\<open>value\<close>, lines 163 to 166.\<close>

definition value_get :: operation where
  "value_get s =
     (case self_pin_value PyNone s of
        (Inl e, s') \<Rightarrow> (Inl e, s')
      | (Inr v, s') \<Rightarrow> (Inr (PyBool (v = PyInt 1)), s'))"

text \<open>
  The setter of \<^verbatim>\<open>value\<close>, lines 168 to 178. In
  \<^verbatim>\<open>self._pin.value(1 if val else 0)\<close> the attribute \<^verbatim>\<open>self._pin.value\<close> is loaded
  first, then the truth test of \<^verbatim>\<open>val\<close> is made, then the call.
\<close>

definition value_set :: "pyval \<Rightarrow> operation" where
  "value_set v s =
     (case direction_get s of
        (Inl e, s') \<Rightarrow> (Inl e, s')
      | (Inr d, s') \<Rightarrow>
          (if d = Direction_OUTPUT
           then (case pin s' of
                   None \<Rightarrow> (Inl (NoAttribute ''NoneType'' ''value''), s')
                 | Some p \<Rightarrow>
                     (case truthy v of
                        Inl e \<Rightarrow> (Inl e, s')
                      | Inr b \<Rightarrow> self_pin_value (PyInt (if b then 1 else 0)) s'))
           else (Inl (AttributeError ''Not an output''), s')))"

text \<open>The getter of \<^verbatim>\<open>drive_mode\<close>, lines 180 to 186.\<close>

definition drive_mode_get :: operation where
  "drive_mode_get s =
     (case direction_get s of
        (Inl e, s') \<Rightarrow> (Inl e, s')
      | (Inr d, s') \<Rightarrow>
          (if d = Direction_OUTPUT
           then (case priv_drive_mode s' of
                   None \<Rightarrow> (Inl (NoAttribute ''DigitalInOut'' ''_DigitalInOut__drive_mode''), s')
                 | Some m \<Rightarrow> (Inr m, s'))
           else (Inl (AttributeError ''Not an output''), s')))"

text \<open>
  The setter of \<^verbatim>\<open>drive_mode\<close>, lines 188 to 198. In
  \<^verbatim>\<open>self._pin.init(mode=Pin.OPEN_DRAIN)\<close> the attribute \<^verbatim>\<open>self._pin.init\<close> is loaded
  first, then the argument \<^verbatim>\<open>Pin.OPEN_DRAIN\<close> is evaluated, then the call is made.
  A mode that is neither instance falls through both tests.
\<close>

definition drive_mode_set :: "pyval \<Rightarrow> operation" where
  "drive_mode_set m s =
     (let s1 = s\<lparr>priv_drive_mode := Some m\<rparr> in
      if m = DriveMode_OPEN_DRAIN then
        (case pin s1 of
           None \<Rightarrow> (Inl (NoAttribute ''NoneType'' ''init''), s1)
         | Some p \<Rightarrow>
             (case Pin_getattr ''OPEN_DRAIN'' of
                Inl e \<Rightarrow> (Inl e, s1)
              | Inr c \<Rightarrow> self_pin_init c s1))
      else if m = DriveMode_PUSH_PULL then self_pin_init (PyInt Pin_OUT) s1
      else (Inr PyNone, s1))"

text \<open>The setter of \<^verbatim>\<open>direction\<close>, lines 148 to 161.\<close>

definition direction_set :: "pyval \<Rightarrow> operation" where
  "direction_set d s =
     (let s1 = s\<lparr>priv_direction := Some d\<rparr> in
      if d = Direction_OUTPUT then
        seq (self_pin_init (PyInt Pin_OUT) s1) (\<lambda>s2.
        seq (value_set (PyBool False) s2)
            (drive_mode_set DriveMode_PUSH_PULL))
      else if d = Direction_INPUT then self_pin_init (PyInt Pin_IN) s1
      else (Inl (AttributeError ''Not a Direction''), s1))"

text \<open>\<^verbatim>\<open>switch_to_output(value, drive_mode)\<close>, lines 128 to 135.\<close>

definition switch_to_output :: "pyval \<Rightarrow> pyval \<Rightarrow> operation" where
  "switch_to_output v m s =
     seq (direction_set Direction_OUTPUT s) (\<lambda>s1.
     seq (value_set v s1) (\<lambda>s2.
     (Inr PyNone, s2\<lparr>attr_drive_mode := Some m\<rparr>)))"

text \<open>\<^verbatim>\<open>switch_to_input(pull)\<close>, lines 137 to 141.\<close>

definition switch_to_input :: "pyval \<Rightarrow> operation" where
  "switch_to_input pull s =
     (Inl (NotImplementedError
             ''Digital reads are not currently supported in ESP32SPI.''), s)"

text \<open>
  \<^verbatim>\<open>DigitalInOut(esp, pin)\<close>, lines 116 to 120: the new object has no attribute
  but the class's \<^verbatim>\<open>_pin = None\<close>; \<^verbatim>\<open>__init__\<close> then makes the \<^verbatim>\<open>Pin\<close> and
  assigns the direction. When the \<^verbatim>\<open>Pin\<close> cannot be made no object is returned.
\<close>

definition DigitalInOut_new :: "command list \<Rightarrow> int \<Rightarrow> result \<times> DigitalInOut" where
  "DigitalInOut_new drv n =
     (case Pin_new n drv of
        (Inl e, drv') \<Rightarrow>
          (Inl e, \<lparr>pin = None, priv_direction = None, priv_drive_mode = None,
                   attr_drive_mode = None, esp = drv'\<rparr>)
      | (Inr p, drv') \<Rightarrow>
          direction_set Direction_INPUT
            \<lparr>pin = Some p, priv_direction = None, priv_drive_mode = None,
             attr_drive_mode = None, esp = drv'\<rparr>)"

subsection \<open>The public operations of a DigitalInOut\<close>

text \<open>
  One constructor for each way a caller can use the object: reading or assigning one of
  the three properties, and the four methods.
\<close>

datatype call =
    Get_direction
  | Set_direction pyval
  | Get_value
  | Set_value pyval
  | Get_drive_mode
  | Set_drive_mode pyval
  | Switch_to_output pyval pyval
  | Switch_to_input pyval
  | Deinit
  | Exit

fun run :: "call \<Rightarrow> operation" where
  "run Get_direction s = direction_get s"
| "run (Set_direction d) s = direction_set d s"
| "run Get_value s = value_get s"
| "run (Set_value v) s = value_set v s"
| "run Get_drive_mode s = drive_mode_get s"
| "run (Set_drive_mode m) s = drive_mode_set m s"
| "run (Switch_to_output v m) s = switch_to_output v m s"
| "run (Switch_to_input pull) s = switch_to_input pull s"
| "run Deinit s = deinit s"
| "run Exit s = DigitalInOut_exit s"

subsection \<open>The with statement on a DigitalInOut\<close>

text \<open>
  Every name bound in the body of class \<^verbatim>\<open>DigitalInOut\<close> (lines 116 to 198), and
  the number of parameters that \<^verbatim>\<open>__exit__\<close> takes after \<^verbatim>\<open>self\<close> (line 122).
\<close>

definition DigitalInOut_class_names :: "string list" where
  "DigitalInOut_class_names =
     [''_pin'', ''__init__'', ''__exit__'', ''deinit'', ''switch_to_output'',
      ''switch_to_input'', ''direction'', ''value'', ''drive_mode'']"

definition DigitalInOut_exit_params :: nat where
  "DigitalInOut_exit_params = 0"

text \<open>
  \<^verbatim>\<open>with obj: body\<close> for a \<^verbatim>\<open>DigitalInOut\<close> \<^verbatim>\<open>obj\<close>. The interpreter loads
  \<^verbatim>\<open>__enter__\<close> and \<^verbatim>\<open>__exit__\<close> from the class before it runs anything; after the
  body, with or without an exception, it calls \<^verbatim>\<open>__exit__\<close> with three arguments.
\<close>

definition with_statement :: "operation \<Rightarrow> operation" where
  "with_statement body s =
     (if ''__enter__'' \<notin> set DigitalInOut_class_names
      then (Inl (NoAttribute ''DigitalInOut'' ''__enter__''), s)
      else if ''__exit__'' \<notin> set DigitalInOut_class_names
      then (Inl (NoAttribute ''DigitalInOut'' ''__exit__''), s)
      else (case body s of
              (r, s1) \<Rightarrow>
                (if DigitalInOut_exit_params = 3
                 then (case DigitalInOut_exit s1 of
                         (Inl e, s2) \<Rightarrow> (Inl e, s2)
                       | (Inr v, s2) \<Rightarrow> (r, s2))
                 else (Inl (TypeError
                   ''__exit__() takes 1 positional argument but 4 were given''), s1))))"

subsection \<open>A driver that can raise\<close>

text \<open>
  The calls of the driver go over a bus and can fail. Here the driver is given by a
  function that says, for the calls it has received so far and a new call, whether the
  new call raises and which exception. The list of calls holds every call made, also one
  that raised. The definitions below are those above with this driver in place of the
  one that carries out every call: \<^verbatim>\<open>Pin.init\<close> and \<^verbatim>\<open>Pin.value\<close> assign
  \<^verbatim>\<open>_mode\<close> and \<^verbatim>\<open>_value\<close> (lines 68, 71, 82, 85) before they call the driver
  (lines 69, 72, 83, 86).
\<close>

type_synonym faults = "command list \<Rightarrow> command \<Rightarrow> string option"

definition never_raises :: faults where
  "never_raises h c = None"

definition esp_call :: "faults \<Rightarrow> command \<Rightarrow> command list \<Rightarrow> result \<times> command list" where
  "esp_call f c drv =
     (case f drv c of
        None \<Rightarrow> (Inr PyNone, drv @ [c])
      | Some x \<Rightarrow> (Inl (Raised x), drv @ [c]))"

definition Pin_init_esp ::
    "faults \<Rightarrow> Pin \<Rightarrow> pyval \<Rightarrow> command list \<Rightarrow> result \<times> Pin \<times> command list" where
  "Pin_init_esp f p m drv =
     (case py_ne_None m of
        Inl e \<Rightarrow> (Inl e, p, drv)
      | Inr False \<Rightarrow> (Inr PyNone, p, drv)
      | Inr True \<Rightarrow>
          (case py_eq_int m Pin_IN of
             Inl e \<Rightarrow> (Inl e, p, drv)
           | Inr True \<Rightarrow>
               (case esp_call f (set_pin_mode (pin_id p) 0) drv of
                  (r, drv') \<Rightarrow> (r, p\<lparr>pin_mode := Pin_IN\<rparr>, drv'))
           | Inr False \<Rightarrow>
               (case py_eq_int m Pin_OUT of
                  Inl e \<Rightarrow> (Inl e, p, drv)
                | Inr True \<Rightarrow>
                    (case esp_call f (set_pin_mode (pin_id p) 1) drv of
                       (r, drv') \<Rightarrow> (r, p\<lparr>pin_mode := Pin_OUT\<rparr>, drv'))
                | Inr False \<Rightarrow> (Inl (RuntimeError ''Invalid mode defined''), p, drv))))"

definition Pin_value_esp ::
    "faults \<Rightarrow> Pin \<Rightarrow> pyval \<Rightarrow> command list \<Rightarrow> result \<times> Pin \<times> command list" where
  "Pin_value_esp f p v drv =
     (case py_ne_None v of
        Inl e \<Rightarrow> (Inl e, p, drv)
      | Inr False \<Rightarrow>
          (Inl (NotImplementedError
                  ''digitalRead not currently implemented in esp32spi''), p, drv)
      | Inr True \<Rightarrow>
          (case py_eq_int v Pin_LOW of
             Inl e \<Rightarrow> (Inl e, p, drv)
           | Inr True \<Rightarrow>
               (case esp_call f (set_digital_write (pin_id p) 0) drv of
                  (r, drv') \<Rightarrow> (r, p\<lparr>pin_value := v\<rparr>, drv'))
           | Inr False \<Rightarrow>
               (case py_eq_int v Pin_HIGH of
                  Inl e \<Rightarrow> (Inl e, p, drv)
                | Inr True \<Rightarrow>
                    (case esp_call f (set_digital_write (pin_id p) 1) drv of
                       (r, drv') \<Rightarrow> (r, p\<lparr>pin_value := v\<rparr>, drv'))
                | Inr False \<Rightarrow> (Inl (RuntimeError ''Invalid value for pin''), p, drv))))"

definition self_pin_init_esp :: "faults \<Rightarrow> pyval \<Rightarrow> operation" where
  "self_pin_init_esp f m s =
     (case pin s of
        None \<Rightarrow> (Inl (NoAttribute ''NoneType'' ''init''), s)
      | Some p \<Rightarrow>
          (case Pin_init_esp f p m (esp s) of
             (r, p', drv) \<Rightarrow> (r, s\<lparr>pin := Some p', esp := drv\<rparr>)))"

definition self_pin_value_esp :: "faults \<Rightarrow> pyval \<Rightarrow> operation" where
  "self_pin_value_esp f v s =
     (case pin s of
        None \<Rightarrow> (Inl (NoAttribute ''NoneType'' ''value''), s)
      | Some p \<Rightarrow>
          (case Pin_value_esp f p v (esp s) of
             (r, p', drv) \<Rightarrow> (r, s\<lparr>pin := Some p', esp := drv\<rparr>)))"

definition value_get_esp :: "faults \<Rightarrow> operation" where
  "value_get_esp f s =
     (case self_pin_value_esp f PyNone s of
        (Inl e, s') \<Rightarrow> (Inl e, s')
      | (Inr v, s') \<Rightarrow> (Inr (PyBool (v = PyInt 1)), s'))"

definition value_set_esp :: "faults \<Rightarrow> pyval \<Rightarrow> operation" where
  "value_set_esp f v s =
     (case direction_get s of
        (Inl e, s') \<Rightarrow> (Inl e, s')
      | (Inr d, s') \<Rightarrow>
          (if d = Direction_OUTPUT
           then (case pin s' of
                   None \<Rightarrow> (Inl (NoAttribute ''NoneType'' ''value''), s')
                 | Some p \<Rightarrow>
                     (case truthy v of
                        Inl e \<Rightarrow> (Inl e, s')
                      | Inr b \<Rightarrow> self_pin_value_esp f (PyInt (if b then 1 else 0)) s'))
           else (Inl (AttributeError ''Not an output''), s')))"

definition drive_mode_set_esp :: "faults \<Rightarrow> pyval \<Rightarrow> operation" where
  "drive_mode_set_esp f m s =
     (let s1 = s\<lparr>priv_drive_mode := Some m\<rparr> in
      if m = DriveMode_OPEN_DRAIN then
        (case pin s1 of
           None \<Rightarrow> (Inl (NoAttribute ''NoneType'' ''init''), s1)
         | Some p \<Rightarrow>
             (case Pin_getattr ''OPEN_DRAIN'' of
                Inl e \<Rightarrow> (Inl e, s1)
              | Inr c \<Rightarrow> self_pin_init_esp f c s1))
      else if m = DriveMode_PUSH_PULL then self_pin_init_esp f (PyInt Pin_OUT) s1
      else (Inr PyNone, s1))"

definition direction_set_esp :: "faults \<Rightarrow> pyval \<Rightarrow> operation" where
  "direction_set_esp f d s =
     (let s1 = s\<lparr>priv_direction := Some d\<rparr> in
      if d = Direction_OUTPUT then
        seq (self_pin_init_esp f (PyInt Pin_OUT) s1) (\<lambda>s2.
        seq (value_set_esp f (PyBool False) s2)
            (drive_mode_set_esp f DriveMode_PUSH_PULL))
      else if d = Direction_INPUT then self_pin_init_esp f (PyInt Pin_IN) s1
      else (Inl (AttributeError ''Not a Direction''), s1))"

definition switch_to_output_esp :: "faults \<Rightarrow> pyval \<Rightarrow> pyval \<Rightarrow> operation" where
  "switch_to_output_esp f v m s =
     seq (direction_set_esp f Direction_OUTPUT s) (\<lambda>s1.
     seq (value_set_esp f v s1) (\<lambda>s2.
     (Inr PyNone, s2\<lparr>attr_drive_mode := Some m\<rparr>)))"

definition DigitalInOut_new_esp :: "faults \<Rightarrow> command list \<Rightarrow> int \<Rightarrow> result \<times> DigitalInOut" where
  "DigitalInOut_new_esp f drv n =
     (case Pin_new n drv of
        (Inl e, drv') \<Rightarrow>
          (Inl e, \<lparr>pin = None, priv_direction = None, priv_drive_mode = None,
                   attr_drive_mode = None, esp = drv'\<rparr>)
      | (Inr p, drv') \<Rightarrow>
          direction_set_esp f Direction_INPUT
            \<lparr>pin = Some p, priv_direction = None, priv_drive_mode = None,
             attr_drive_mode = None, esp = drv'\<rparr>)"

fun run_esp :: "faults \<Rightarrow> call \<Rightarrow> operation" where
  "run_esp f Get_direction s = direction_get s"
| "run_esp f (Set_direction d) s = direction_set_esp f d s"
| "run_esp f Get_value s = value_get_esp f s"
| "run_esp f (Set_value v) s = value_set_esp f v s"
| "run_esp f Get_drive_mode s = drive_mode_get s"
| "run_esp f (Set_drive_mode m) s = drive_mode_set_esp f m s"
| "run_esp f (Switch_to_output v m) s = switch_to_output_esp f v m s"
| "run_esp f (Switch_to_input pull) s = switch_to_input pull s"
| "run_esp f Deinit s = deinit s"
| "run_esp f Exit s = DigitalInOut_exit s"


section \<open>Properties\<close>

subsection \<open>What each call does on a live and on a released object\<close>

lemma self_pin_init_released:
  "pin s = None \<Longrightarrow> self_pin_init m s = (Inl (NoAttribute ''NoneType'' ''init''), s)"
  by (simp add: self_pin_init_def)

lemma self_pin_value_released:
  "pin s = None \<Longrightarrow> self_pin_value v s = (Inl (NoAttribute ''NoneType'' ''value''), s)"
  by (simp add: self_pin_value_def)

lemma self_pin_init_OUT:
  "pin s = Some p \<Longrightarrow>
   self_pin_init (PyInt Pin_OUT) s =
     (Inr PyNone, s\<lparr>pin := Some (p\<lparr>pin_mode := Pin_OUT\<rparr>),
                    esp := esp s @ [set_pin_mode (pin_id p) 1]\<rparr>)"
  by (simp add: self_pin_init_def Pin_init_def Pin_IN_def Pin_OUT_def)

lemma self_pin_init_IN:
  "pin s = Some p \<Longrightarrow>
   self_pin_init (PyInt Pin_IN) s =
     (Inr PyNone, s\<lparr>pin := Some (p\<lparr>pin_mode := Pin_IN\<rparr>),
                    esp := esp s @ [set_pin_mode (pin_id p) 0]\<rparr>)"
  by (simp add: self_pin_init_def Pin_init_def Pin_IN_def)

lemma value_set_output:
  "priv_direction s = Some Direction_OUTPUT \<Longrightarrow> pin s = Some p \<Longrightarrow> truthy v = Inr b \<Longrightarrow>
   value_set v s =
     (Inr PyNone,
      s\<lparr>pin := Some (p\<lparr>pin_value := PyInt (if b then 1 else 0)\<rparr>),
        esp := esp s @ [set_digital_write (pin_id p) (if b then 1 else 0)]\<rparr>)"
  by (simp add: value_set_def direction_get_def self_pin_value_def Pin_value_def
      Pin_LOW_def Pin_HIGH_def)

lemma value_set_raises:
  "priv_direction s = Some Direction_OUTPUT \<Longrightarrow> pin s = Some p \<Longrightarrow> truthy v = Inl e \<Longrightarrow>
   value_set v s = (Inl e, s)"
  by (simp add: value_set_def direction_get_def)

lemma drive_mode_set_PUSH_PULL:
  "pin s = Some p \<Longrightarrow>
   drive_mode_set DriveMode_PUSH_PULL s =
     (Inr PyNone,
      s\<lparr>pin := Some (p\<lparr>pin_mode := Pin_OUT\<rparr>),
        priv_drive_mode := Some DriveMode_PUSH_PULL,
        esp := esp s @ [set_pin_mode (pin_id p) 1]\<rparr>)"
  by (simp add: drive_mode_set_def Let_def self_pin_init_OUT)

lemma direction_set_OUTPUT_live:
  "pin s = Some p \<Longrightarrow>
   direction_set Direction_OUTPUT s =
     (Inr PyNone,
      s\<lparr>pin := Some (p\<lparr>pin_mode := Pin_OUT, pin_value := PyInt 0\<rparr>),
        priv_direction := Some Direction_OUTPUT,
        priv_drive_mode := Some DriveMode_PUSH_PULL,
        esp := esp s @ [set_pin_mode (pin_id p) 1, set_digital_write (pin_id p) 0,
                        set_pin_mode (pin_id p) 1]\<rparr>)"
  by (simp add: direction_set_def Let_def seq_def self_pin_init_OUT
      value_set_output [where b = False] drive_mode_set_PUSH_PULL)

lemma switch_to_output_live:
  "pin s = Some p \<Longrightarrow> truthy v = Inr b \<Longrightarrow>
   switch_to_output v m s =
     (Inr PyNone,
      s\<lparr>pin := Some (p\<lparr>pin_mode := Pin_OUT, pin_value := PyInt (if b then 1 else 0)\<rparr>),
        priv_direction := Some Direction_OUTPUT,
        priv_drive_mode := Some DriveMode_PUSH_PULL,
        attr_drive_mode := Some m,
        esp := esp s @ [set_pin_mode (pin_id p) 1, set_digital_write (pin_id p) 0,
                        set_pin_mode (pin_id p) 1,
                        set_digital_write (pin_id p) (if b then 1 else 0)]\<rparr>)"
  by (simp add: switch_to_output_def seq_def direction_set_OUTPUT_live
      value_set_output [where b = b])

lemma DigitalInOut_new_5:
  "DigitalInOut_new [] 5 =
     (Inr PyNone,
      \<lparr>pin = Some \<lparr>pin_id = 5, pin_mode = 0, pin_value = PyInt 0\<rparr>,
       priv_direction = Some Direction_INPUT, priv_drive_mode = None,
       attr_drive_mode = None, esp = [set_pin_mode 5 0]\<rparr>)"
  by (simp add: DigitalInOut_new_def Pin_new_def ESP32_GPIO_PINS_def direction_set_def
      Let_def self_pin_init_def Pin_init_def Pin_IN_def Pin_LOW_def)

subsection \<open>How a call fails when the driver can raise\<close>

lemma esp_call_cases:
  "esp_call f c drv = (r, drv') \<Longrightarrow>
     drv' = drv @ [c] \<and> (r = Inr PyNone \<and> f drv c = None \<or> (\<exists>x. r = Inl (Raised x) \<and> f drv c = Some x))"
  by (auto simp: esp_call_def split: option.splits)



















text \<open>With a driver that never raises, the definitions are those of the first part.\<close>

lemma Pin_init_esp_never_raises: "Pin_init_esp never_raises p m drv = Pin_init p m drv"
  by (simp add: Pin_init_esp_def Pin_init_def esp_call_def never_raises_def
      split: sum.splits bool.splits)

lemma Pin_value_esp_never_raises: "Pin_value_esp never_raises p v drv = Pin_value p v drv"
  by (simp add: Pin_value_esp_def Pin_value_def esp_call_def never_raises_def
      split: sum.splits bool.splits)

lemma self_pin_init_esp_never_raises: "self_pin_init_esp never_raises m s = self_pin_init m s"
  by (simp add: self_pin_init_esp_def self_pin_init_def Pin_init_esp_never_raises
      split: option.splits)

lemma self_pin_value_esp_never_raises: "self_pin_value_esp never_raises v s = self_pin_value v s"
  by (simp add: self_pin_value_esp_def self_pin_value_def Pin_value_esp_never_raises
      split: option.splits)

lemma value_set_esp_never_raises: "value_set_esp never_raises v s = value_set v s"
  by (simp add: value_set_esp_def value_set_def self_pin_value_esp_never_raises
      split: prod.splits sum.splits option.splits)

lemma drive_mode_set_esp_never_raises: "drive_mode_set_esp never_raises m s = drive_mode_set m s"
  by (simp add: drive_mode_set_esp_def drive_mode_set_def self_pin_init_esp_never_raises
      Let_def split: option.splits sum.splits)

lemma direction_set_esp_never_raises: "direction_set_esp never_raises d s = direction_set d s"
proof -
  have "drive_mode_set_esp never_raises DriveMode_PUSH_PULL = drive_mode_set DriveMode_PUSH_PULL"
    by (rule ext) (rule drive_mode_set_esp_never_raises)
  then show ?thesis
    by (simp add: direction_set_esp_def direction_set_def self_pin_init_esp_never_raises
        value_set_esp_never_raises Let_def seq_def split: prod.splits sum.splits)
qed

lemma switch_to_output_esp_never_raises:
  "switch_to_output_esp never_raises v m s = switch_to_output v m s"
  by (simp add: switch_to_output_esp_def switch_to_output_def direction_set_esp_never_raises
      value_set_esp_never_raises seq_def split: prod.splits sum.splits)

lemma run_esp_never_raises: "run_esp never_raises c s = run c s"
  by (cases c)
     (simp_all add: direction_set_esp_never_raises value_set_esp_never_raises
        drive_mode_set_esp_never_raises switch_to_output_esp_never_raises
        value_get_esp_def value_get_def self_pin_value_esp_never_raises
        split: prod.splits sum.splits)

lemma DigitalInOut_new_esp_never_raises:
  "DigitalInOut_new_esp never_raises drv n = DigitalInOut_new drv n"
  by (simp add: DigitalInOut_new_esp_def DigitalInOut_new_def direction_set_esp_never_raises
      split: prod.splits sum.splits)

subsection \<open>The claims\<close>

text \<open>
  C7. On a \<^verbatim>\<open>DigitalInOut\<close> that has not been released, whatever its direction,
  reading \<^verbatim>\<open>value\<close> raises \<^verbatim>\<open>NotImplementedError\<close> and changes nothing: the getter
  calls \<^verbatim>\<open>Pin.value()\<close> with no argument, which always raises that exception.
\<close>

theorem value_get_not_implemented:
  "pin s = Some p \<Longrightarrow>
     value_get s =
       (Inl (NotImplementedError ''digitalRead not currently implemented in esp32spi''), s)
     \<and> Pin_value p PyNone drv =
       (Inl (NotImplementedError ''digitalRead not currently implemented in esp32spi''),
        p, drv)"
  by (simp add: value_get_def self_pin_value_def Pin_value_def)

theorem value_get_not_implemented_witness:
  "pin (snd (DigitalInOut_new [] 5)) =
     Some \<lparr>pin_id = 5, pin_mode = 0, pin_value = PyInt 0\<rparr>
   \<and> fst (value_get (snd (DigitalInOut_new [] 5))) =
       Inl (NotImplementedError ''digitalRead not currently implemented in esp32spi'')
   \<and> fst (value_get (snd (direction_set Direction_OUTPUT (snd (DigitalInOut_new [] 5))))) =
       Inl (NotImplementedError ''digitalRead not currently implemented in esp32spi'')"
proof -
  let ?s = "snd (DigitalInOut_new [] 5)"
  let ?p = "\<lparr>pin_id = 5, pin_mode = 0, pin_value = PyInt 0\<rparr>"
  have live: "pin ?s = Some ?p"
    by (simp add: DigitalInOut_new_5)
  have out: "pin (snd (direction_set Direction_OUTPUT ?s)) =
      Some (?p\<lparr>pin_mode := Pin_OUT, pin_value := PyInt 0\<rparr>)"
    by (simp add: direction_set_OUTPUT_live [OF live])
  show ?thesis
    using live value_get_not_implemented [OF live, of "[]"]
      value_get_not_implemented [OF out, of "[]"]
    by simp
qed

text \<open>
  C5. \<^verbatim>\<open>Pin(esp_pin, esp)\<close> with \<open>esp_pin\<close> outside \<open>ESP32_GPIO_PINS\<close> raises the
  \<^verbatim>\<open>AttributeError\<close> of line 59 and the driver receives no call; with \<open>esp_pin\<close> in
  the set it returns a \<^verbatim>\<open>Pin\<close> whose \<^verbatim>\<open>id\<close> is \<open>esp_pin\<close>, again with no call to
  the driver.
\<close>

theorem Pin_new_checks_pin:
  "(esp_pin \<notin> ESP32_GPIO_PINS \<longrightarrow>
      Pin_new esp_pin drv =
        (Inl (AttributeError
               (''Pin '' @ str_int esp_pin @ '' is not a valid ESP32 GPIO Pin.'')), drv))
   \<and> (esp_pin \<in> ESP32_GPIO_PINS \<longrightarrow>
      (\<exists>p. Pin_new esp_pin drv = (Inr p, drv) \<and> pin_id p = esp_pin))"
  by (simp add: Pin_new_def)

theorem Pin_new_checks_pin_witness:
  "99 \<notin> ESP32_GPIO_PINS
   \<and> Pin_new 99 [] = (Inl (AttributeError ''Pin 99 is not a valid ESP32 GPIO Pin.''), [])
   \<and> 5 \<in> ESP32_GPIO_PINS
   \<and> (\<exists>p. Pin_new 5 [set_pin_mode 4 1] = (Inr p, [set_pin_mode 4 1]) \<and> pin_id p = 5)"
proof -
  have out: "99 \<notin> ESP32_GPIO_PINS" and inside: "5 \<in> ESP32_GPIO_PINS"
    by (simp_all add: ESP32_GPIO_PINS_def)
  have msg: "str_int 99 = ''99''"
    by (simp add: str_int_def str_nat.simps)
  show ?thesis
    using out inside Pin_new_checks_pin [of 99 "[]"]
      Pin_new_checks_pin [of 5 "[set_pin_mode 4 1]"]
    by (simp add: msg)
qed

text \<open>
  C6. On a \<^verbatim>\<open>DigitalInOut\<close> that has not been released, assigning
  \<^verbatim>\<open>Direction.OUTPUT\<close> to \<^verbatim>\<open>direction\<close> succeeds; afterwards the \<^verbatim>\<open>drive_mode\<close>
  property reads \<^verbatim>\<open>DriveMode.PUSH_PULL\<close>, the direction reads \<^verbatim>\<open>Direction.OUTPUT\<close>,
  the value held by the pin is \<^verbatim>\<open>LOW\<close>, and the driver has received
  \<^verbatim>\<open>set_pin_mode(id, 1)\<close>, then \<^verbatim>\<open>set_digital_write(id, 0)\<close>, then
  \<^verbatim>\<open>set_pin_mode(id, 1)\<close> again.
\<close>

theorem direction_set_OUTPUT_resets:
  "pin s = Some p \<Longrightarrow>
     (\<exists>s' p'.
        direction_set Direction_OUTPUT s = (Inr PyNone, s')
        \<and> drive_mode_get s' = (Inr DriveMode_PUSH_PULL, s')
        \<and> direction_get s' = (Inr Direction_OUTPUT, s')
        \<and> pin s' = Some p' \<and> pin_value p' = PyInt Pin_LOW \<and> pin_mode p' = Pin_OUT
        \<and> pin_id p' = pin_id p
        \<and> esp s' = esp s @ [set_pin_mode (pin_id p) Pin_OUT,
                            set_digital_write (pin_id p) Pin_LOW,
                            set_pin_mode (pin_id p) Pin_OUT])"
  by (simp add: direction_set_OUTPUT_live drive_mode_get_def direction_get_def
      Pin_LOW_def Pin_OUT_def)

theorem direction_set_OUTPUT_resets_witness:
  "pin (snd (DigitalInOut_new [] 5)) =
     Some \<lparr>pin_id = 5, pin_mode = 0, pin_value = PyInt 0\<rparr>
   \<and> (\<exists>s' p'.
        direction_set Direction_OUTPUT (snd (DigitalInOut_new [] 5)) = (Inr PyNone, s')
        \<and> drive_mode_get s' = (Inr DriveMode_PUSH_PULL, s')
        \<and> direction_get s' = (Inr Direction_OUTPUT, s')
        \<and> pin s' = Some p' \<and> pin_value p' = PyInt 0 \<and> pin_mode p' = 1
        \<and> pin_id p' = 5
        \<and> esp s' = [set_pin_mode 5 0, set_pin_mode 5 1, set_digital_write 5 0,
                     set_pin_mode 5 1])"
proof -
  have live: "pin (snd (DigitalInOut_new [] 5)) =
      Some \<lparr>pin_id = 5, pin_mode = 0, pin_value = PyInt 0\<rparr>"
    by (simp add: DigitalInOut_new_5)
  have log: "esp (snd (DigitalInOut_new [] 5)) = [set_pin_mode 5 0]"
    by (simp add: DigitalInOut_new_5)
  show ?thesis
    using live direction_set_OUTPUT_resets [OF live]
    by (simp add: log Pin_LOW_def Pin_OUT_def)
qed

text \<open>
  C8. With direction \<^verbatim>\<open>OUTPUT\<close> on an object that has not been released, assigning
  \<^verbatim>\<open>True\<close> to \<^verbatim>\<open>value\<close> sends the driver exactly one call,
  \<^verbatim>\<open>set_digital_write(id, 1)\<close>, and assigning \<^verbatim>\<open>False\<close> exactly one,
  \<^verbatim>\<open>set_digital_write(id, 0)\<close>. With any other direction, assigning any value
  raises the \<^verbatim>\<open>AttributeError\<close> "Not an output" and changes nothing, so that the
  driver receives no call.
\<close>

theorem value_set_bool:
  "(priv_direction s = Some Direction_OUTPUT \<and> pin s = Some p \<longrightarrow>
      value_set (PyBool True) s =
        (Inr PyNone, s\<lparr>pin := Some (p\<lparr>pin_value := PyInt Pin_HIGH\<rparr>),
                       esp := esp s @ [set_digital_write (pin_id p) Pin_HIGH]\<rparr>)
      \<and> value_set (PyBool False) s =
        (Inr PyNone, s\<lparr>pin := Some (p\<lparr>pin_value := PyInt Pin_LOW\<rparr>),
                       esp := esp s @ [set_digital_write (pin_id p) Pin_LOW]\<rparr>))
   \<and> (priv_direction s = Some d \<and> d \<noteq> Direction_OUTPUT \<longrightarrow>
      value_set v s = (Inl (AttributeError ''Not an output''), s))"
proof -
  have hi: "priv_direction s = Some Direction_OUTPUT \<and> pin s = Some p \<longrightarrow>
      value_set (PyBool True) s =
        (Inr PyNone, s\<lparr>pin := Some (p\<lparr>pin_value := PyInt Pin_HIGH\<rparr>),
                       esp := esp s @ [set_digital_write (pin_id p) Pin_HIGH]\<rparr>)"
    using value_set_output [of s p "PyBool True" True] by (simp add: Pin_HIGH_def)
  have lo: "priv_direction s = Some Direction_OUTPUT \<and> pin s = Some p \<longrightarrow>
      value_set (PyBool False) s =
        (Inr PyNone, s\<lparr>pin := Some (p\<lparr>pin_value := PyInt Pin_LOW\<rparr>),
                       esp := esp s @ [set_digital_write (pin_id p) Pin_LOW]\<rparr>)"
    using value_set_output [of s p "PyBool False" False] by (simp add: Pin_LOW_def)
  have other: "priv_direction s = Some d \<and> d \<noteq> Direction_OUTPUT \<longrightarrow>
      value_set v s = (Inl (AttributeError ''Not an output''), s)"
    by (simp add: value_set_def direction_get_def)
  from hi lo other show ?thesis by blast
qed

theorem value_set_bool_witness:
  "value_set (PyBool True)
     \<lparr>pin = Some \<lparr>pin_id = 5, pin_mode = 1, pin_value = PyInt 0\<rparr>,
      priv_direction = Some Direction_OUTPUT,
      priv_drive_mode = Some DriveMode_PUSH_PULL, attr_drive_mode = None,
      esp = []\<rparr> =
     (Inr PyNone,
      \<lparr>pin = Some \<lparr>pin_id = 5, pin_mode = 1, pin_value = PyInt 1\<rparr>,
       priv_direction = Some Direction_OUTPUT,
       priv_drive_mode = Some DriveMode_PUSH_PULL, attr_drive_mode = None,
       esp = [set_digital_write 5 1]\<rparr>)
   \<and> value_set (PyBool False)
     \<lparr>pin = Some \<lparr>pin_id = 5, pin_mode = 1, pin_value = PyInt 0\<rparr>,
      priv_direction = Some Direction_OUTPUT,
      priv_drive_mode = Some DriveMode_PUSH_PULL, attr_drive_mode = None,
      esp = []\<rparr> =
     (Inr PyNone,
      \<lparr>pin = Some \<lparr>pin_id = 5, pin_mode = 1, pin_value = PyInt 0\<rparr>,
       priv_direction = Some Direction_OUTPUT,
       priv_drive_mode = Some DriveMode_PUSH_PULL, attr_drive_mode = None,
       esp = [set_digital_write 5 0]\<rparr>)
   \<and> value_set (PyBool True)
     \<lparr>pin = Some \<lparr>pin_id = 5, pin_mode = 0, pin_value = PyInt 0\<rparr>,
      priv_direction = Some Direction_INPUT,
      priv_drive_mode = None, attr_drive_mode = None,
      esp = [set_pin_mode 5 0]\<rparr> =
     (Inl (AttributeError ''Not an output''),
      \<lparr>pin = Some \<lparr>pin_id = 5, pin_mode = 0, pin_value = PyInt 0\<rparr>,
       priv_direction = Some Direction_INPUT,
       priv_drive_mode = None, attr_drive_mode = None,
       esp = [set_pin_mode 5 0]\<rparr>)"
  using
    value_set_bool [of "\<lparr>pin = Some \<lparr>pin_id = 5, pin_mode = 1, pin_value = PyInt 0\<rparr>,
      priv_direction = Some Direction_OUTPUT,
      priv_drive_mode = Some DriveMode_PUSH_PULL, attr_drive_mode = None,
      esp = []\<rparr>" "\<lparr>pin_id = 5, pin_mode = 1, pin_value = PyInt 0\<rparr>"
      Direction_OUTPUT PyNone]
    value_set_bool [of "\<lparr>pin = Some \<lparr>pin_id = 5, pin_mode = 0, pin_value = PyInt 0\<rparr>,
      priv_direction = Some Direction_INPUT,
      priv_drive_mode = None, attr_drive_mode = None,
      esp = [set_pin_mode 5 0]\<rparr>" "\<lparr>pin_id = 5, pin_mode = 0, pin_value = PyInt 0\<rparr>"
      Direction_INPUT "PyBool True"]
  by (simp add: Pin_HIGH_def Pin_LOW_def)

text \<open>
  C1. \<^verbatim>\<open>switch_to_output(True, DriveMode.OPEN_DRAIN)\<close> on the object made by
  \<^verbatim>\<open>DigitalInOut(esp, 5)\<close>: the call succeeds; the driver receives
  \<^verbatim>\<open>set_pin_mode(5, 1)\<close>, \<^verbatim>\<open>set_digital_write(5, 0)\<close>, \<^verbatim>\<open>set_pin_mode(5, 1)\<close>
  and \<^verbatim>\<open>set_digital_write(5, 1)\<close> after the \<^verbatim>\<open>set_pin_mode(5, 0)\<close> of the
  constructor, and no call for an open-drain mode; line 135 assigns the attribute
  \<^verbatim>\<open>_drive_mode\<close>, not the property, so that \<^verbatim>\<open>drive_mode\<close> afterwards reads
  \<^verbatim>\<open>DriveMode.PUSH_PULL\<close>.
\<close>

theorem switch_to_output_open_drain_trace:
  "switch_to_output (PyBool True) DriveMode_OPEN_DRAIN (snd (DigitalInOut_new [] 5)) =
     (Inr PyNone,
      \<lparr>pin = Some \<lparr>pin_id = 5, pin_mode = 1, pin_value = PyInt 1\<rparr>,
       priv_direction = Some Direction_OUTPUT,
       priv_drive_mode = Some DriveMode_PUSH_PULL,
       attr_drive_mode = Some DriveMode_OPEN_DRAIN,
       esp = [set_pin_mode 5 0, set_pin_mode 5 1, set_digital_write 5 0,
              set_pin_mode 5 1, set_digital_write 5 1]\<rparr>)
   \<and> fst (drive_mode_get
            (snd (switch_to_output (PyBool True) DriveMode_OPEN_DRAIN
                    (snd (DigitalInOut_new [] 5))))) =
       Inr DriveMode_PUSH_PULL"
proof -
  let ?s = "snd (DigitalInOut_new [] 5)"
  have live: "pin ?s = Some \<lparr>pin_id = 5, pin_mode = 0, pin_value = PyInt 0\<rparr>"
    by (simp add: DigitalInOut_new_5)
  have run: "switch_to_output (PyBool True) DriveMode_OPEN_DRAIN ?s =
     (Inr PyNone,
      \<lparr>pin = Some \<lparr>pin_id = 5, pin_mode = 1, pin_value = PyInt 1\<rparr>,
       priv_direction = Some Direction_OUTPUT,
       priv_drive_mode = Some DriveMode_PUSH_PULL,
       attr_drive_mode = Some DriveMode_OPEN_DRAIN,
       esp = [set_pin_mode 5 0, set_pin_mode 5 1, set_digital_write 5 0,
              set_pin_mode 5 1, set_digital_write 5 1]\<rparr>)"
    by (simp add: switch_to_output_live [OF live] Pin_OUT_def)
       (simp add: DigitalInOut_new_5)
  show ?thesis
    by (simp add: run drive_mode_get_def direction_get_def)
qed

text \<open>
  C4. With direction \<^verbatim>\<open>OUTPUT\<close> on the object made by \<^verbatim>\<open>DigitalInOut(esp, 5)\<close>,
  assigning \<^verbatim>\<open>DriveMode.OPEN_DRAIN\<close> to \<^verbatim>\<open>drive_mode\<close> stores it and then raises
  \<^verbatim>\<open>AttributeError\<close>, because class \<^verbatim>\<open>Pin\<close> has no attribute \<^verbatim>\<open>OPEN_DRAIN\<close>:
  the pin is not initialized again and the driver receives no call. Assigning
  \<^verbatim>\<open>DriveMode.PUSH_PULL\<close> stores it and sends \<^verbatim>\<open>set_pin_mode(5, 1)\<close>.
\<close>

theorem drive_mode_set_open_drain_trace:
  "drive_mode_set DriveMode_OPEN_DRAIN
     (snd (direction_set Direction_OUTPUT (snd (DigitalInOut_new [] 5)))) =
     (Inl (NoAttribute ''Pin'' ''OPEN_DRAIN''),
      \<lparr>pin = Some \<lparr>pin_id = 5, pin_mode = 1, pin_value = PyInt 0\<rparr>,
       priv_direction = Some Direction_OUTPUT,
       priv_drive_mode = Some DriveMode_OPEN_DRAIN, attr_drive_mode = None,
       esp = [set_pin_mode 5 0, set_pin_mode 5 1, set_digital_write 5 0,
              set_pin_mode 5 1]\<rparr>)
   \<and> drive_mode_set DriveMode_PUSH_PULL
     (snd (direction_set Direction_OUTPUT (snd (DigitalInOut_new [] 5)))) =
     (Inr PyNone,
      \<lparr>pin = Some \<lparr>pin_id = 5, pin_mode = 1, pin_value = PyInt 0\<rparr>,
       priv_direction = Some Direction_OUTPUT,
       priv_drive_mode = Some DriveMode_PUSH_PULL, attr_drive_mode = None,
       esp = [set_pin_mode 5 0, set_pin_mode 5 1, set_digital_write 5 0,
              set_pin_mode 5 1, set_pin_mode 5 1]\<rparr>)"
proof -
  have live: "pin (snd (DigitalInOut_new [] 5)) =
      Some \<lparr>pin_id = 5, pin_mode = 0, pin_value = PyInt 0\<rparr>"
    by (simp add: DigitalInOut_new_5)
  have out: "snd (direction_set Direction_OUTPUT (snd (DigitalInOut_new [] 5))) =
      \<lparr>pin = Some \<lparr>pin_id = 5, pin_mode = 1, pin_value = PyInt 0\<rparr>,
       priv_direction = Some Direction_OUTPUT,
       priv_drive_mode = Some DriveMode_PUSH_PULL, attr_drive_mode = None,
       esp = [set_pin_mode 5 0, set_pin_mode 5 1, set_digital_write 5 0,
              set_pin_mode 5 1]\<rparr>"
    by (simp add: direction_set_OUTPUT_live [OF live] Pin_OUT_def)
       (simp add: DigitalInOut_new_5)
  show ?thesis
    by (simp add: out drive_mode_set_def Let_def Pin_getattr_def Pin_class_attrs_def
        self_pin_init_def Pin_init_def Pin_IN_def Pin_OUT_def)
qed

text \<open>
  C9. \<^verbatim>\<open>__exit__()\<close> called by hand releases the pin, but the class has no
  \<^verbatim>\<open>__enter__\<close>: a \<^verbatim>\<open>with\<close> statement on the object made by
  \<^verbatim>\<open>DigitalInOut(esp, 5)\<close> raises \<^verbatim>\<open>AttributeError\<close> before its body runs, and the
  pin is still held afterwards. The body here assigns \<^verbatim>\<open>True\<close> to \<^verbatim>\<open>value\<close>, which
  raises while the direction is \<^verbatim>\<open>INPUT\<close>.
\<close>

theorem with_statement_never_enters:
  "with_statement (value_set (PyBool True)) (snd (DigitalInOut_new [] 5)) =
     (Inl (NoAttribute ''DigitalInOut'' ''__enter__''), snd (DigitalInOut_new [] 5))
   \<and> pin (snd (with_statement (value_set (PyBool True)) (snd (DigitalInOut_new [] 5)))) =
       Some \<lparr>pin_id = 5, pin_mode = 0, pin_value = PyInt 0\<rparr>
   \<and> pin (snd (DigitalInOut_exit (snd (DigitalInOut_new [] 5)))) = None"
  by (simp add: with_statement_def DigitalInOut_class_names_def DigitalInOut_new_5
      DigitalInOut_exit_def deinit_def)

lemma run_released:
  assumes "pin s = None"
  shows "pin (snd (run c s)) = None \<and> esp (snd (run c s)) = esp s"
proof (cases c)
  case (Set_direction d)
  with assms show ?thesis
    by (simp add: direction_set_def Let_def seq_def self_pin_init_released)
next
  case (Set_value v)
  with assms show ?thesis
    by (simp add: value_set_def direction_get_def self_pin_value_released
        split: option.splits)
next
  case (Set_drive_mode m)
  with assms show ?thesis
    by (simp add: drive_mode_set_def Let_def self_pin_init_released)
next
  case (Switch_to_output v m)
  with assms show ?thesis
    by (simp add: switch_to_output_def direction_set_def Let_def seq_def
        self_pin_init_released)
qed (use assms in \<open>simp_all add: direction_get_def value_get_def self_pin_value_released
      drive_mode_get_def switch_to_input_def deinit_def DigitalInOut_exit_def
      split: option.splits\<close>)

text \<open>
  C2, as the claim states it, fails: on the object made by \<^verbatim>\<open>DigitalInOut(esp, 5)\<close>,
  reading \<^verbatim>\<open>direction\<close> after \<^verbatim>\<open>deinit()\<close> returns \<^verbatim>\<open>Direction.INPUT\<close>, and after
  the direction was set to \<^verbatim>\<open>OUTPUT\<close> reading \<^verbatim>\<open>drive_mode\<close> after \<^verbatim>\<open>deinit()\<close>
  returns \<^verbatim>\<open>DriveMode.PUSH_PULL\<close>. Neither raises.
\<close>

theorem getters_after_deinit_counterexample:
  "fst (direction_get (snd (deinit (snd (DigitalInOut_new [] 5))))) = Inr Direction_INPUT
   \<and> fst (drive_mode_get
            (snd (deinit (snd (direction_set Direction_OUTPUT
                                 (snd (DigitalInOut_new [] 5))))))) =
       Inr DriveMode_PUSH_PULL"
proof -
  have live: "pin (snd (DigitalInOut_new [] 5)) =
      Some \<lparr>pin_id = 5, pin_mode = 0, pin_value = PyInt 0\<rparr>"
    by (simp add: DigitalInOut_new_5)
  show ?thesis
    by (simp add: direction_set_OUTPUT_live [OF live] deinit_def drive_mode_get_def
        direction_get_def)
       (simp add: DigitalInOut_new_5)
qed

lemma direction_stays_stored:
  "priv_direction s \<noteq> None \<Longrightarrow> priv_direction (snd (run c s)) \<noteq> None"
proof (cases c)
  case (Set_direction d)
  then show ?thesis
    by (cases "pin s")
       (auto simp: direction_set_def Let_def seq_def self_pin_init_def Pin_init_def
          Pin_IN_def Pin_OUT_def value_set_def direction_get_def self_pin_value_def
          Pin_value_def Pin_LOW_def Pin_HIGH_def drive_mode_set_def)
next
  case (Switch_to_output v m)
  have "priv_direction (snd (direction_set Direction_OUTPUT s)) = Some Direction_OUTPUT"
    by (cases "pin s")
       (auto simp: direction_set_def Let_def seq_def self_pin_init_def Pin_init_def
          Pin_IN_def Pin_OUT_def value_set_def direction_get_def self_pin_value_def
          Pin_value_def Pin_LOW_def Pin_HIGH_def drive_mode_set_def)
  moreover have "priv_direction (snd (value_set v s')) = priv_direction s'" for s'
    by (auto simp: value_set_def direction_get_def self_pin_value_def Pin_value_def
        Pin_LOW_def Pin_HIGH_def split: option.splits sum.splits)
  ultimately show ?thesis
    using Switch_to_output
    by (auto simp: switch_to_output_def seq_def split: prod.splits sum.splits)
       (metis snd_conv option.distinct(1))+
qed (auto simp: direction_get_def value_get_def self_pin_value_def Pin_value_def
      value_set_def Pin_LOW_def Pin_HIGH_def drive_mode_get_def drive_mode_set_def Let_def
      self_pin_init_def Pin_init_def Pin_IN_def Pin_OUT_def Pin_getattr_def
      Pin_class_attrs_def switch_to_input_def deinit_def DigitalInOut_exit_def
      split: option.splits sum.splits)

lemma DigitalInOut_new_direction:
  "DigitalInOut_new drv n = (Inr v, s) \<Longrightarrow> priv_direction s = Some Direction_INPUT"
  by (auto simp: DigitalInOut_new_def Pin_new_def direction_set_def Let_def
      self_pin_init_def Pin_init_def Pin_IN_def split: if_splits)

text \<open>
  C2, amended. Let \<open>s\<close> be the state that \<^verbatim>\<open>deinit()\<close> leaves. \<^verbatim>\<open>deinit()\<close> did not
  fail, and calling it again succeeds and changes nothing. Whatever is called next, the
  object stays released and the driver receives no call. The calls that use the pin
  fail with the \<^verbatim>\<open>AttributeError\<close> that the interpreter raises for an attribute of
  \<^verbatim>\<open>None\<close>: assigning \<^verbatim>\<open>INPUT\<close> or \<^verbatim>\<open>OUTPUT\<close> to \<^verbatim>\<open>direction\<close>, reading
  \<^verbatim>\<open>value\<close>, assigning \<^verbatim>\<open>value\<close> while the stored direction is \<^verbatim>\<open>OUTPUT\<close>,
  assigning \<^verbatim>\<open>PUSH_PULL\<close> or \<^verbatim>\<open>OPEN_DRAIN\<close> to \<^verbatim>\<open>drive_mode\<close>, and
  \<^verbatim>\<open>switch_to_output\<close>. The other calls do what they do on an object that holds its
  pin. Reading \<^verbatim>\<open>direction\<close> returns the stored direction, which every object has
  from its construction on. Reading \<^verbatim>\<open>drive_mode\<close> while the stored direction is
  \<^verbatim>\<open>OUTPUT\<close> returns the stored drive mode when one was ever stored; when none was,
  as after \<^verbatim>\<open>deinit()\<close> and a failed assignment of \<^verbatim>\<open>OUTPUT\<close> on an object that was
  never an output, it raises the \<^verbatim>\<open>AttributeError\<close> for the missing attribute. While
  the stored direction is not \<^verbatim>\<open>OUTPUT\<close>, reading \<^verbatim>\<open>drive_mode\<close> and assigning
  \<^verbatim>\<open>value\<close> raise "Not an output". Assigning to \<^verbatim>\<open>direction\<close> a value that is no
  direction raises "Not a Direction", assigning to \<^verbatim>\<open>drive_mode\<close> a value that is
  no drive mode succeeds and stores it, and \<^verbatim>\<open>switch_to_input\<close> raises
  \<^verbatim>\<open>NotImplementedError\<close>.
\<close>

theorem calls_after_deinit:
  assumes "deinit s0 = (r, s)"
  shows "r = Inr PyNone \<and> deinit s = (Inr PyNone, s)
    \<and> pin (snd (run c s)) = None \<and> esp (snd (run c s)) = esp s
    \<and> (d = Direction_INPUT \<or> d = Direction_OUTPUT \<longrightarrow>
         fst (direction_set d s) = Inl (NoAttribute ''NoneType'' ''init''))
    \<and> fst (value_get s) = Inl (NoAttribute ''NoneType'' ''value'')
    \<and> (priv_direction s = Some Direction_OUTPUT \<longrightarrow>
         fst (value_set v s) = Inl (NoAttribute ''NoneType'' ''value''))
    \<and> (m = DriveMode_PUSH_PULL \<or> m = DriveMode_OPEN_DRAIN \<longrightarrow>
         fst (drive_mode_set m s) = Inl (NoAttribute ''NoneType'' ''init''))
    \<and> fst (switch_to_output v m s) = Inl (NoAttribute ''NoneType'' ''init'')
    \<and> (priv_direction s = Some d \<longrightarrow> direction_get s = (Inr d, s))
    \<and> (priv_direction s = Some Direction_OUTPUT \<and> priv_drive_mode s = Some m \<longrightarrow>
         drive_mode_get s = (Inr m, s))
    \<and> (priv_direction s = Some Direction_OUTPUT \<and> priv_drive_mode s = None \<longrightarrow>
         drive_mode_get s =
           (Inl (NoAttribute ''DigitalInOut'' ''_DigitalInOut__drive_mode''), s))
    \<and> (priv_direction s = Some d \<and> d \<noteq> Direction_OUTPUT \<longrightarrow>
         drive_mode_get s = (Inl (AttributeError ''Not an output''), s)
         \<and> value_set v s = (Inl (AttributeError ''Not an output''), s))
    \<and> (d \<noteq> Direction_INPUT \<and> d \<noteq> Direction_OUTPUT \<longrightarrow>
         direction_set d s =
           (Inl (AttributeError ''Not a Direction''), s\<lparr>priv_direction := Some d\<rparr>))
    \<and> (m \<noteq> DriveMode_PUSH_PULL \<and> m \<noteq> DriveMode_OPEN_DRAIN \<longrightarrow>
         drive_mode_set m s = (Inr PyNone, s\<lparr>priv_drive_mode := Some m\<rparr>))
    \<and> switch_to_input v s =
         (Inl (NotImplementedError
                 ''Digital reads are not currently supported in ESP32SPI.''), s)"
proof -
  from assms have r: "r = Inr PyNone" and s: "s = s0\<lparr>pin := None\<rparr>"
    by (simp_all add: deinit_def)
  from s have released: "pin s = None"
    by simp
  have again: "deinit s = (Inr PyNone, s)"
    by (simp add: s deinit_def)
  have dir: "d = Direction_INPUT \<or> d = Direction_OUTPUT \<longrightarrow>
      fst (direction_set d s) = Inl (NoAttribute ''NoneType'' ''init'')"
    using released
    by (auto simp: direction_set_def Let_def seq_def self_pin_init_released)
  have rd: "fst (value_get s) = Inl (NoAttribute ''NoneType'' ''value'')"
    using released by (simp add: value_get_def self_pin_value_released)
  have wr: "priv_direction s = Some Direction_OUTPUT \<longrightarrow>
      fst (value_set v s) = Inl (NoAttribute ''NoneType'' ''value'')"
    using released by (simp add: value_set_def direction_get_def)
  have dm: "m = DriveMode_PUSH_PULL \<or> m = DriveMode_OPEN_DRAIN \<longrightarrow>
      fst (drive_mode_set m s) = Inl (NoAttribute ''NoneType'' ''init'')"
    using released by (auto simp: drive_mode_set_def Let_def self_pin_init_released)
  have sw: "fst (switch_to_output v m s) = Inl (NoAttribute ''NoneType'' ''init'')"
    using released
    by (simp add: switch_to_output_def direction_set_def Let_def seq_def
        self_pin_init_released)
  have getd: "priv_direction s = Some d \<longrightarrow> direction_get s = (Inr d, s)"
    by (simp add: direction_get_def)
  have getm: "priv_direction s = Some Direction_OUTPUT \<and> priv_drive_mode s = Some m \<longrightarrow>
      drive_mode_get s = (Inr m, s)"
    by (simp add: drive_mode_get_def direction_get_def)
  have nom: "priv_direction s = Some Direction_OUTPUT \<and> priv_drive_mode s = None \<longrightarrow>
      drive_mode_get s =
        (Inl (NoAttribute ''DigitalInOut'' ''_DigitalInOut__drive_mode''), s)"
    by (simp add: drive_mode_get_def direction_get_def)
  have notout: "priv_direction s = Some d \<and> d \<noteq> Direction_OUTPUT \<longrightarrow>
      drive_mode_get s = (Inl (AttributeError ''Not an output''), s)
      \<and> value_set v s = (Inl (AttributeError ''Not an output''), s)"
    by (simp add: drive_mode_get_def value_set_def direction_get_def)
  have nodir: "d \<noteq> Direction_INPUT \<and> d \<noteq> Direction_OUTPUT \<longrightarrow>
      direction_set d s =
        (Inl (AttributeError ''Not a Direction''), s\<lparr>priv_direction := Some d\<rparr>)"
    by (simp add: direction_set_def Let_def)
  have anym: "m \<noteq> DriveMode_PUSH_PULL \<and> m \<noteq> DriveMode_OPEN_DRAIN \<longrightarrow>
      drive_mode_set m s = (Inr PyNone, s\<lparr>priv_drive_mode := Some m\<rparr>)"
    by (simp add: drive_mode_set_def Let_def)
  have inp: "switch_to_input v s =
      (Inl (NotImplementedError
              ''Digital reads are not currently supported in ESP32SPI.''), s)"
    by (simp add: switch_to_input_def)
  from r again run_released [OF released, of c] dir rd wr dm sw getd getm nom notout nodir
    anym inp
  show ?thesis by blast
qed

theorem calls_after_deinit_witness:
  "deinit \<lparr>pin = Some \<lparr>pin_id = 5, pin_mode = 1, pin_value = PyInt 0\<rparr>,
           priv_direction = Some Direction_OUTPUT,
           priv_drive_mode = Some DriveMode_PUSH_PULL, attr_drive_mode = None,
           esp = [set_pin_mode 5 1]\<rparr> =
     (Inr PyNone,
      \<lparr>pin = None, priv_direction = Some Direction_OUTPUT,
       priv_drive_mode = Some DriveMode_PUSH_PULL, attr_drive_mode = None,
       esp = [set_pin_mode 5 1]\<rparr>)
   \<and> deinit \<lparr>pin = None, priv_direction = Some Direction_OUTPUT,
       priv_drive_mode = Some DriveMode_PUSH_PULL, attr_drive_mode = None,
       esp = [set_pin_mode 5 1]\<rparr> =
     (Inr PyNone,
      \<lparr>pin = None, priv_direction = Some Direction_OUTPUT,
       priv_drive_mode = Some DriveMode_PUSH_PULL, attr_drive_mode = None,
       esp = [set_pin_mode 5 1]\<rparr>)
   \<and> fst (direction_set Direction_OUTPUT
       \<lparr>pin = None, priv_direction = Some Direction_OUTPUT,
        priv_drive_mode = Some DriveMode_PUSH_PULL, attr_drive_mode = None,
        esp = [set_pin_mode 5 1]\<rparr>) = Inl (NoAttribute ''NoneType'' ''init'')
   \<and> fst (value_set (PyBool True)
       \<lparr>pin = None, priv_direction = Some Direction_OUTPUT,
        priv_drive_mode = Some DriveMode_PUSH_PULL, attr_drive_mode = None,
        esp = [set_pin_mode 5 1]\<rparr>) = Inl (NoAttribute ''NoneType'' ''value'')
   \<and> fst (drive_mode_set DriveMode_PUSH_PULL
       \<lparr>pin = None, priv_direction = Some Direction_OUTPUT,
        priv_drive_mode = Some DriveMode_PUSH_PULL, attr_drive_mode = None,
        esp = [set_pin_mode 5 1]\<rparr>) = Inl (NoAttribute ''NoneType'' ''init'')
   \<and> fst (direction_get
       \<lparr>pin = None, priv_direction = Some Direction_OUTPUT,
        priv_drive_mode = Some DriveMode_PUSH_PULL, attr_drive_mode = None,
        esp = [set_pin_mode 5 1]\<rparr>) = Inr Direction_OUTPUT
   \<and> fst (drive_mode_get
       \<lparr>pin = None, priv_direction = Some Direction_OUTPUT,
        priv_drive_mode = Some DriveMode_PUSH_PULL, attr_drive_mode = None,
        esp = [set_pin_mode 5 1]\<rparr>) = Inr DriveMode_PUSH_PULL
   \<and> deinit (snd (direction_set Direction_OUTPUT
                     (snd (deinit (snd (DigitalInOut_new [] 5)))))) =
     (Inr PyNone,
      \<lparr>pin = None, priv_direction = Some Direction_OUTPUT, priv_drive_mode = None,
       attr_drive_mode = None, esp = [set_pin_mode 5 0]\<rparr>)
   \<and> fst (drive_mode_get
       \<lparr>pin = None, priv_direction = Some Direction_OUTPUT, priv_drive_mode = None,
        attr_drive_mode = None, esp = [set_pin_mode 5 0]\<rparr>) =
     Inl (NoAttribute ''DigitalInOut'' ''_DigitalInOut__drive_mode'')
   \<and> deinit (snd (DigitalInOut_new [] 5)) =
     (Inr PyNone,
      \<lparr>pin = None, priv_direction = Some Direction_INPUT, priv_drive_mode = None,
       attr_drive_mode = None, esp = [set_pin_mode 5 0]\<rparr>)
   \<and> fst (drive_mode_get
       \<lparr>pin = None, priv_direction = Some Direction_INPUT, priv_drive_mode = None,
        attr_drive_mode = None, esp = [set_pin_mode 5 0]\<rparr>) =
     Inl (AttributeError ''Not an output'')
   \<and> fst (direction_set (PyInt 1)
       \<lparr>pin = None, priv_direction = Some Direction_INPUT, priv_drive_mode = None,
        attr_drive_mode = None, esp = [set_pin_mode 5 0]\<rparr>) =
     Inl (AttributeError ''Not a Direction'')
   \<and> fst (drive_mode_set (PyInt 1)
       \<lparr>pin = None, priv_direction = Some Direction_INPUT, priv_drive_mode = None,
        attr_drive_mode = None, esp = [set_pin_mode 5 0]\<rparr>) = Inr PyNone"
proof -
  let ?held = "\<lparr>pin = Some \<lparr>pin_id = 5, pin_mode = 1, pin_value = PyInt 0\<rparr>,
           priv_direction = Some Direction_OUTPUT,
           priv_drive_mode = Some DriveMode_PUSH_PULL, attr_drive_mode = None,
           esp = [set_pin_mode 5 1]\<rparr>"
  let ?s = "\<lparr>pin = None, priv_direction = Some Direction_OUTPUT,
       priv_drive_mode = Some DriveMode_PUSH_PULL, attr_drive_mode = None,
       esp = [set_pin_mode 5 1]\<rparr>"
  let ?failed = "snd (direction_set Direction_OUTPUT (snd (deinit (snd (DigitalInOut_new [] 5)))))"
  let ?t = "\<lparr>pin = None, priv_direction = Some Direction_OUTPUT, priv_drive_mode = None,
       attr_drive_mode = None, esp = [set_pin_mode 5 0]\<rparr>"
  let ?made = "snd (DigitalInOut_new [] 5)"
  let ?u = "\<lparr>pin = None, priv_direction = Some Direction_INPUT, priv_drive_mode = None,
       attr_drive_mode = None, esp = [set_pin_mode 5 0]\<rparr>"
  have released: "deinit ?held = (Inr PyNone, ?s)"
    by (simp add: deinit_def)
  have never_output: "deinit ?failed = (Inr PyNone, ?t)"
    by (simp add: DigitalInOut_new_5 deinit_def direction_set_def Let_def seq_def
        self_pin_init_def)
  have fresh: "deinit ?made = (Inr PyNone, ?u)"
    by (simp add: DigitalInOut_new_5 deinit_def)
  from calls_after_deinit [OF released, of Deinit Direction_OUTPUT "PyBool True"
      DriveMode_PUSH_PULL]
  have a: "deinit ?s = (Inr PyNone, ?s)"
    "fst (direction_set Direction_OUTPUT ?s) = Inl (NoAttribute ''NoneType'' ''init'')"
    "fst (value_set (PyBool True) ?s) = Inl (NoAttribute ''NoneType'' ''value'')"
    "fst (drive_mode_set DriveMode_PUSH_PULL ?s) = Inl (NoAttribute ''NoneType'' ''init'')"
    "fst (direction_get ?s) = Inr Direction_OUTPUT"
    "fst (drive_mode_get ?s) = Inr DriveMode_PUSH_PULL"
    by simp_all
  from calls_after_deinit [OF never_output, of Deinit Direction_OUTPUT "PyBool True"
      DriveMode_PUSH_PULL]
  have b: "fst (drive_mode_get ?t) =
      Inl (NoAttribute ''DigitalInOut'' ''_DigitalInOut__drive_mode'')"
    by simp
  from calls_after_deinit [OF fresh, of Deinit Direction_INPUT "PyBool True"
      DriveMode_PUSH_PULL]
  have c: "fst (drive_mode_get ?u) = Inl (AttributeError ''Not an output'')"
    by simp
  from calls_after_deinit [OF fresh, of Deinit "PyInt 1" "PyBool True" "PyInt 1"]
  have d: "fst (direction_set (PyInt 1) ?u) = Inl (AttributeError ''Not a Direction'')"
    "fst (drive_mode_set (PyInt 1) ?u) = Inr PyNone"
    by simp_all
  show ?thesis
    by (intro conjI) (rule released never_output fresh a b c d)+
qed

text \<open>
  C10, as the claim states it, fails: the setter does not take every value. With
  direction \<^verbatim>\<open>OUTPUT\<close> on the object made by \<^verbatim>\<open>DigitalInOut(esp, 5)\<close>, assigning to
  \<^verbatim>\<open>value\<close> an object whose truth test raises \<^verbatim>\<open>ValueError\<close> raises that
  exception; the driver receives no call and nothing changes.
\<close>

theorem value_set_truth_test_counterexample:
  "value_set (PyObject ''Reading'' 0 (Inl ''ValueError'') (\<lambda>n. Inr False) (Inr True))
     (snd (direction_set Direction_OUTPUT (snd (DigitalInOut_new [] 5)))) =
     (Inl (Raised ''ValueError''),
      \<lparr>pin = Some \<lparr>pin_id = 5, pin_mode = 1, pin_value = PyInt 0\<rparr>,
       priv_direction = Some Direction_OUTPUT,
       priv_drive_mode = Some DriveMode_PUSH_PULL, attr_drive_mode = None,
       esp = [set_pin_mode 5 0, set_pin_mode 5 1, set_digital_write 5 0,
              set_pin_mode 5 1]\<rparr>)"
proof -
  have live: "pin (snd (DigitalInOut_new [] 5)) =
      Some \<lparr>pin_id = 5, pin_mode = 0, pin_value = PyInt 0\<rparr>"
    by (simp add: DigitalInOut_new_5)
  have out: "snd (direction_set Direction_OUTPUT (snd (DigitalInOut_new [] 5))) =
      \<lparr>pin = Some \<lparr>pin_id = 5, pin_mode = 1, pin_value = PyInt 0\<rparr>,
       priv_direction = Some Direction_OUTPUT,
       priv_drive_mode = Some DriveMode_PUSH_PULL, attr_drive_mode = None,
       esp = [set_pin_mode 5 0, set_pin_mode 5 1, set_digital_write 5 0,
              set_pin_mode 5 1]\<rparr>"
    by (simp add: direction_set_OUTPUT_live [OF live] Pin_OUT_def)
       (simp add: DigitalInOut_new_5)
  show ?thesis
    by (simp add: out value_set_def direction_get_def observed_def)
qed

text \<open>
  C10, amended. With direction \<^verbatim>\<open>OUTPUT\<close> on an object that has not been released,
  the setter of \<^verbatim>\<open>value\<close> takes every value whose truth test returns, and sends the
  driver exactly one call: \<^verbatim>\<open>set_digital_write(id, 1)\<close> when the value is true and
  \<^verbatim>\<open>set_digital_write(id, 0)\<close> when it is false. False are \<^verbatim>\<open>None\<close>, \<^verbatim>\<open>False\<close>,
  the integer 0, the empty string, list, tuple and dict, and every other object whose
  truth test returns false; true are \<^verbatim>\<open>True\<close>, the other integers, the other
  strings, lists, tuples and dicts, the instances of \<^verbatim>\<open>Direction\<close> and
  \<^verbatim>\<open>DriveMode\<close>, and every other object whose truth test returns true. When the truth
  test raises, the setter raises that exception, sends no call and changes nothing. In
  no state does the setter raise the \<^verbatim>\<open>RuntimeError\<close> "Invalid value for pin".
\<close>

theorem value_set_truth_test:
  "(priv_direction s = Some Direction_OUTPUT \<and> pin s = Some p \<longrightarrow>
      (let sent = (\<lambda>level.
             (Inr PyNone,
              s\<lparr>pin := Some (p\<lparr>pin_value := PyInt level\<rparr>),
                esp := esp s @ [set_digital_write (pin_id p) level]\<rparr>))
       in value_set PyNone s = sent Pin_LOW
        \<and> value_set (PyBool b) s = sent (if b then Pin_HIGH else Pin_LOW)
        \<and> value_set (PyInt i) s = sent (if i = 0 then Pin_LOW else Pin_HIGH)
        \<and> value_set (PyStr str) s = sent (if str = [] then Pin_LOW else Pin_HIGH)
        \<and> value_set (PyList xs) s = sent (if xs = [] then Pin_LOW else Pin_HIGH)
        \<and> value_set (PyTuple xs) s = sent (if xs = [] then Pin_LOW else Pin_HIGH)
        \<and> value_set (PyDict kvs) s = sent (if kvs = [] then Pin_LOW else Pin_HIGH)
        \<and> value_set Direction_INPUT s = sent Pin_HIGH
        \<and> value_set Direction_OUTPUT s = sent Pin_HIGH
        \<and> value_set DriveMode_PUSH_PULL s = sent Pin_HIGH
        \<and> value_set DriveMode_OPEN_DRAIN s = sent Pin_HIGH
        \<and> value_set (PyObject c k (Inr b) q r) s = sent (if b then Pin_HIGH else Pin_LOW)
        \<and> value_set (PyObject c k (Inl x) q r) s = (Inl (Raised x), s)))
   \<and> fst (value_set v s) \<noteq> Inl (RuntimeError ''Invalid value for pin'')"
proof -
  have never: "fst (value_set v s) \<noteq> Inl (RuntimeError ''Invalid value for pin'')"
    by (cases v)
       (auto simp: value_set_def direction_get_def self_pin_value_def Pin_value_def
          Pin_LOW_def Pin_HIGH_def observed_def split: option.splits sum.splits)
  have "value_set w s =
      (Inr PyNone,
       s\<lparr>pin := Some (p\<lparr>pin_value := PyInt (if t then Pin_HIGH else Pin_LOW)\<rparr>),
         esp := esp s @ [set_digital_write (pin_id p) (if t then Pin_HIGH else Pin_LOW)]\<rparr>)"
    if "priv_direction s = Some Direction_OUTPUT" "pin s = Some p" "truthy w = Inr t"
    for w t
    using value_set_output [OF that] by (simp add: Pin_HIGH_def Pin_LOW_def)
  moreover have "value_set (PyObject c k (Inl x) q r) s = (Inl (Raised x), s)"
    if "priv_direction s = Some Direction_OUTPUT" "pin s = Some p"
    using value_set_raises [OF that, of "PyObject c k (Inl x) q r" "Raised x"]
    by (simp add: observed_def)
  ultimately show ?thesis
    using never by (simp add: Let_def observed_def)
qed

theorem value_set_truth_test_witness:
  "value_set (PyStr ''on'')
     \<lparr>pin = Some \<lparr>pin_id = 13, pin_mode = 1, pin_value = PyInt 0\<rparr>,
      priv_direction = Some Direction_OUTPUT,
      priv_drive_mode = Some DriveMode_PUSH_PULL, attr_drive_mode = None,
      esp = []\<rparr> =
     (Inr PyNone,
      \<lparr>pin = Some \<lparr>pin_id = 13, pin_mode = 1, pin_value = PyInt 1\<rparr>,
       priv_direction = Some Direction_OUTPUT,
       priv_drive_mode = Some DriveMode_PUSH_PULL, attr_drive_mode = None,
       esp = [set_digital_write 13 1]\<rparr>)
   \<and> value_set (PyDict [])
     \<lparr>pin = Some \<lparr>pin_id = 13, pin_mode = 1, pin_value = PyInt 0\<rparr>,
      priv_direction = Some Direction_OUTPUT,
      priv_drive_mode = Some DriveMode_PUSH_PULL, attr_drive_mode = None,
      esp = []\<rparr> =
     (Inr PyNone,
      \<lparr>pin = Some \<lparr>pin_id = 13, pin_mode = 1, pin_value = PyInt 0\<rparr>,
       priv_direction = Some Direction_OUTPUT,
       priv_drive_mode = Some DriveMode_PUSH_PULL, attr_drive_mode = None,
       esp = [set_digital_write 13 0]\<rparr>)
   \<and> value_set (PyObject ''float'' 0 (Inr False) (\<lambda>n. Inr (n = 0)) (Inr True))
     \<lparr>pin = Some \<lparr>pin_id = 13, pin_mode = 1, pin_value = PyInt 0\<rparr>,
      priv_direction = Some Direction_OUTPUT,
      priv_drive_mode = Some DriveMode_PUSH_PULL, attr_drive_mode = None,
      esp = []\<rparr> =
     (Inr PyNone,
      \<lparr>pin = Some \<lparr>pin_id = 13, pin_mode = 1, pin_value = PyInt 0\<rparr>,
       priv_direction = Some Direction_OUTPUT,
       priv_drive_mode = Some DriveMode_PUSH_PULL, attr_drive_mode = None,
       esp = [set_digital_write 13 0]\<rparr>)
   \<and> value_set (PyObject ''Reading'' 0 (Inl ''ValueError'') (\<lambda>n. Inr False) (Inr True))
     \<lparr>pin = Some \<lparr>pin_id = 13, pin_mode = 1, pin_value = PyInt 0\<rparr>,
      priv_direction = Some Direction_OUTPUT,
      priv_drive_mode = Some DriveMode_PUSH_PULL, attr_drive_mode = None,
      esp = []\<rparr> =
     (Inl (Raised ''ValueError''),
      \<lparr>pin = Some \<lparr>pin_id = 13, pin_mode = 1, pin_value = PyInt 0\<rparr>,
       priv_direction = Some Direction_OUTPUT,
       priv_drive_mode = Some DriveMode_PUSH_PULL, attr_drive_mode = None,
       esp = []\<rparr>)"
proof -
  let ?out = "\<lparr>pin = Some \<lparr>pin_id = 13, pin_mode = 1, pin_value = PyInt 0\<rparr>,
      priv_direction = Some Direction_OUTPUT,
      priv_drive_mode = Some DriveMode_PUSH_PULL, attr_drive_mode = None,
      esp = []\<rparr>"
  let ?p = "\<lparr>pin_id = 13, pin_mode = 1, pin_value = PyInt 0\<rparr>"
  have hyp: "priv_direction ?out = Some Direction_OUTPUT \<and> pin ?out = Some ?p"
    by simp
  from hyp value_set_truth_test [of ?out ?p True 1 "''on''" "[]" "[]" "''float''" 0
      "\<lambda>n. Inr (n = 0)" "Inr True" "''ValueError''" PyNone]
  have a: "value_set (PyStr ''on'') ?out =
      (Inr PyNone, ?out\<lparr>pin := Some (?p\<lparr>pin_value := PyInt 1\<rparr>),
                        esp := [set_digital_write 13 1]\<rparr>)"
    and b: "value_set (PyDict []) ?out =
      (Inr PyNone, ?out\<lparr>pin := Some (?p\<lparr>pin_value := PyInt 0\<rparr>),
                        esp := [set_digital_write 13 0]\<rparr>)"
    by (simp_all add: Let_def Pin_HIGH_def Pin_LOW_def)
  from hyp value_set_truth_test [of ?out ?p False 1 "''on''" "[]" "[]" "''float''" 0
      "\<lambda>n. Inr (n = 0)" "Inr True" "''ValueError''" PyNone]
  have c: "value_set (PyObject ''float'' 0 (Inr False) (\<lambda>n. Inr (n = 0)) (Inr True)) ?out =
      (Inr PyNone, ?out\<lparr>pin := Some (?p\<lparr>pin_value := PyInt 0\<rparr>),
                        esp := [set_digital_write 13 0]\<rparr>)"
    by (simp add: Let_def Pin_HIGH_def Pin_LOW_def)
  from hyp value_set_truth_test [of ?out ?p False 1 "''on''" "[]" "[]" "''Reading''" 0
      "\<lambda>n. Inr False" "Inr True" "''ValueError''" PyNone]
  have d: "value_set (PyObject ''Reading'' 0 (Inl ''ValueError'') (\<lambda>n. Inr False) (Inr True))
      ?out = (Inl (Raised ''ValueError''), ?out)"
    by (simp add: Let_def)
  from a b c d show ?thesis
    by simp
qed




end
